theory Spec2Isabelle
  imports Main "HOL-Library.Multiset" "HOL-Library.AList"
begin

section \<open>Errors raised by the library\<close>

text \<open>
  Every exception the modelled functions can raise is a value of \<open>py_error\<close>.
  The specification's taxonomy maps \<open>ValueError\<close> and \<open>TypeError\<close> to InvalidInput or
  DuplicateAlias (depending on the raising function), \<open>IndexError\<close> to EmptyCollection
  and \<open>NotImplementedError\<close> to NotImplemented.
\<close>

datatype py_error =
    NotImplementedError
  | ValueError
  | TypeError
  | IndexError
  | AttributeError
  | NameError
  | UnboundLocalError
  | KeyError
  | OverflowError

section \<open>kiwilib.addLineBreaks\<close>

text \<open>\<open>s.startswith(d)\<close> on Python strings.\<close>

fun startswith :: "string \<Rightarrow> string \<Rightarrow> bool" where
  "startswith [] s = True"
| "startswith (d # ds) [] = False"
| "startswith (d # ds) (c # cs) = (d = c \<and> startswith ds cs)"

text \<open>\<open>delim in s\<close>: substring containment; the empty string occurs in every string.\<close>

fun str_contains :: "string \<Rightarrow> string \<Rightarrow> bool" where
  "str_contains d [] = (d = [])"
| "str_contains d (c # cs) = (startswith d (c # cs) \<or> str_contains d cs)"

text \<open>
  \<open>s.split(delim)\<close>: cut at the non-overlapping occurrences of a non-empty separator,
  left to right; an empty separator raises \<open>ValueError\<close>. \<open>split_scan d cur rest\<close>
  carries the segment collected so far.
\<close>

fun split_scan :: "string \<Rightarrow> string \<Rightarrow> string \<Rightarrow> string list" where
  "split_scan d cur [] = [cur]"
| "split_scan d cur (c # cs) =
     (if startswith d (c # cs) then cur # split_scan d [] (drop (length d - 1) cs)
      else split_scan d (cur @ [c]) cs)"

definition str_split :: "string \<Rightarrow> string \<Rightarrow> py_error + string list" where
  "str_split s d = (if d = [] then Inl ValueError else Inr (split_scan d [] s))"

definition newline :: string where
  "newline = [CHR 0x0A]"

text \<open>
  The loop \<open>for i, seg in enumerate(segments[:-1])\<close>: at step \<open>i\<close> the next segment
  \<open>segments[i+1]\<close> is joined to \<open>out\<close> with a newline when \<open>i\<close> is one of the requested
  occurrence indices, and with the delimiter otherwise.
\<close>

fun join_segments :: "string \<Rightarrow> int list \<Rightarrow> nat \<Rightarrow> string \<Rightarrow> string list \<Rightarrow> string" where
  "join_segments delim idx i out [] = out"
| "join_segments delim idx i out (seg # rest) =
     join_segments delim idx (Suc i)
       (out @ (if int i \<in> set idx then newline else delim) @ seg) rest"

text \<open>
  \<open>addLineBreaks(s, delim, maxLen, delimIndices, insert)\<close>. An absent optional argument
  is \<open>None\<close>. The checks are in the order of the source: delimiter absent, \<open>maxLen\<close> given,
  the exclusive-or test, then the replacement. The parameter \<open>insert\<close> (here \<open>ins\<close>) is never read.
\<close>

definition addLineBreaks ::
  "string \<Rightarrow> string \<Rightarrow> int option \<Rightarrow> int list option \<Rightarrow> int \<Rightarrow> py_error + string" where
  "addLineBreaks s delim maxLen delimIndices ins =
     (if \<not> str_contains delim s then Inr s
      else if maxLen \<noteq> None then Inl NotImplementedError
      else if \<not> ((maxLen = None) \<noteq> (delimIndices = None)) then Inl ValueError
      else (case delimIndices of
              None \<Rightarrow> Inl UnboundLocalError
            | Some idx \<Rightarrow>
                (case str_split s delim of
                   Inl e \<Rightarrow> Inl e
                 | Inr segments \<Rightarrow>
                     Inr (join_segments delim idx 0 (hd segments) (tl segments)))))"

section \<open>kiwilib.YamlCodecDatetimes\<close>

text \<open>Sequencing of computations that may raise.\<close>

definition ebind :: "py_error + 'a \<Rightarrow> ('a \<Rightarrow> py_error + 'b) \<Rightarrow> py_error + 'b" where
  "ebind m f = (case m of Inl e \<Rightarrow> Inl e | Inr x \<Rightarrow> f x)"

text \<open>The types the codec knows, and the attribute values it reads: \<open>None\<close> or an integer.\<close>

datatype pytype =
    datetime_datetime | datetime_timedelta | pd_Timestamp | pd_NaTType | pd_NAType
  | pd_Timedelta | np_timedelta64

datatype pyval = PyNone | PyInt int

definition types_to_yaml_tags :: "(pytype \<times> string \<times> string list) list" where
  "types_to_yaml_tags =
     [(datetime_datetime, (''datetime.datetime'',
         [''year'', ''month'', ''day'', ''hour'', ''minute'', ''second'', ''microsecond'', ''tzinfo''])),
      (datetime_timedelta, (''datetime.timedelta'', [''days'', ''seconds'', ''microseconds''])),
      (pd_Timestamp, (''pd.Timestamp'',
         [''year'', ''month'', ''day'', ''hour'', ''minute'', ''second'', ''microsecond'', ''tzinfo''])),
      (pd_NaTType, (''pd.NaT'', [])),
      (pd_NAType, (''pd.NA'', [])),
      (pd_Timedelta, (''pd.Timedelta'', [''days'', ''seconds'', ''microseconds''])),
      (np_timedelta64, (''np.timedelta64'', [''days'', ''seconds'', ''microseconds'']))]"

text \<open>\<open>dict(zip([val[0] for val in types_to_yaml_tags.values()], types_to_yaml_tags.keys()))\<close>\<close>

definition yaml_tags_to_types :: "(string \<times> pytype) list" where
  "yaml_tags_to_types =
     zip (map (\<lambda>(ty, val). fst val) types_to_yaml_tags) (map fst types_to_yaml_tags)"

text \<open>
  The dict comprehension of \<open>to_yaml_dict\<close>: the keys in table order, a key kept only when
  the attribute is \<open>not in (None, 0)\<close>. \<open>getattribute\<close> is the object's attribute access.
\<close>

fun collect_fields ::
  "('obj \<Rightarrow> string \<Rightarrow> py_error + pyval) \<Rightarrow> 'obj \<Rightarrow> string list \<Rightarrow> py_error + (string \<times> pyval) list" where
  "collect_fields getattribute obj [] = Inr []"
| "collect_fields getattribute obj (key # keys) =
     ebind (getattribute obj key) (\<lambda>v.
       ebind (collect_fields getattribute obj keys) (\<lambda>rest.
         Inr (if v \<in> set [PyNone, PyInt 0] then rest else (key, v) # rest)))"

text \<open>
  \<open>to_yaml_dict(obj)\<close> returns the tag and the mapping; a type that is not in the table
  raises \<open>KeyError\<close>. \<open>type_of\<close> is Python's \<open>type(obj)\<close>.
\<close>

definition to_yaml_dict ::
  "('obj \<Rightarrow> pytype) \<Rightarrow> ('obj \<Rightarrow> string \<Rightarrow> py_error + pyval) \<Rightarrow> 'obj
     \<Rightarrow> py_error + (string \<times> (string \<times> pyval) list)" where
  "to_yaml_dict type_of getattribute obj =
     (case map_of types_to_yaml_tags (type_of obj) of
        None \<Rightarrow> Inl KeyError
      | Some (tag, keys) \<Rightarrow>
          ebind (collect_fields getattribute obj keys) (\<lambda>dct. Inr (tag, dct)))"

text \<open>
  \<open>from_yaml_dict(yaml_tag_suffix, dct)\<close> looks the type up and calls it with the mapping
  as keyword arguments; \<open>construct typ dct\<close> is that call \<open>typ(**dct)\<close>.
\<close>

definition from_yaml_dict ::
  "(pytype \<Rightarrow> (string \<times> pyval) list \<Rightarrow> py_error + 'obj) \<Rightarrow> string \<Rightarrow> (string \<times> pyval) list
     \<Rightarrow> py_error + 'obj" where
  "from_yaml_dict construct yaml_tag_suffix dct =
     (case map_of yaml_tags_to_types yaml_tag_suffix of
        None \<Rightarrow> Inl KeyError
      | Some typ \<Rightarrow> construct typ dct)"

subsection \<open>The standard library's duration type\<close>

text \<open>
  A \<open>datetime.timedelta\<close> object holds three normalised integers:
  \<open>0 \<le> seconds < 86400\<close>, \<open>0 \<le> microseconds < 1000000\<close> and
  \<open>-999999999 \<le> days \<le> 999999999\<close>. Its constructor accepts the keyword arguments
  below (each defaults to zero), adds them up and normalises the sum; a day count out of
  range raises \<open>OverflowError\<close>, an unknown keyword or a \<open>None\<close> argument \<open>TypeError\<close>.
  Only integer arguments are modelled.
\<close>

record timedelta =
  days :: int
  seconds :: int
  microseconds :: int

definition valid_timedelta :: "timedelta \<Rightarrow> bool" where
  "valid_timedelta td \<longleftrightarrow>
     - 999999999 \<le> days td \<and> days td \<le> 999999999 \<and>
     0 \<le> seconds td \<and> seconds td < 86400 \<and>
     0 \<le> microseconds td \<and> microseconds td < 1000000"

definition kwarg_int :: "(string \<times> pyval) list \<Rightarrow> string \<Rightarrow> py_error + int" where
  "kwarg_int kw k =
     (case map_of kw k of
        None \<Rightarrow> Inr 0
      | Some PyNone \<Rightarrow> Inl TypeError
      | Some (PyInt n) \<Rightarrow> Inr n)"

definition timedelta_keywords :: "string list" where
  "timedelta_keywords =
     [''days'', ''seconds'', ''microseconds'', ''milliseconds'', ''minutes'', ''hours'', ''weeks'']"

definition timedelta_normalise :: "int \<Rightarrow> py_error + timedelta" where
  "timedelta_normalise us_total =
     (let dd = us_total div 86400000000;
          r = us_total mod 86400000000
      in if dd < - 999999999 \<or> 999999999 < dd then Inl OverflowError
         else Inr \<lparr>days = dd, seconds = r div 1000000, microseconds = r mod 1000000\<rparr>)"

definition timedelta_new :: "(string \<times> pyval) list \<Rightarrow> py_error + timedelta" where
  "timedelta_new kw =
     (if \<not> list_all (\<lambda>(k, v). k \<in> set timedelta_keywords) kw then Inl TypeError
      else
        ebind (kwarg_int kw ''days'') (\<lambda>d.
        ebind (kwarg_int kw ''seconds'') (\<lambda>s.
        ebind (kwarg_int kw ''microseconds'') (\<lambda>us.
        ebind (kwarg_int kw ''milliseconds'') (\<lambda>ms.
        ebind (kwarg_int kw ''minutes'') (\<lambda>mi.
        ebind (kwarg_int kw ''hours'') (\<lambda>h.
        ebind (kwarg_int kw ''weeks'') (\<lambda>w.
          timedelta_normalise
            (((((w * 7 + d) * 24 + h) * 60 + mi) * 60 + s) * 1000000 + ms * 1000 + us)))))))))"

text \<open>The three pieces the codec needs, for duration objects.\<close>

definition timedelta_type_of :: "timedelta \<Rightarrow> pytype" where
  "timedelta_type_of td = datetime_timedelta"

definition timedelta_getattribute :: "timedelta \<Rightarrow> string \<Rightarrow> py_error + pyval" where
  "timedelta_getattribute td key =
     (if key = ''days'' then Inr (PyInt (days td))
      else if key = ''seconds'' then Inr (PyInt (seconds td))
      else if key = ''microseconds'' then Inr (PyInt (microseconds td))
      else Inl AttributeError)"

text \<open>
  Calling the looked-up type: only the duration constructor is modelled, the
  constructors of the other six types are outside this development.
\<close>

definition timedelta_construct :: "pytype \<Rightarrow> (string \<times> pyval) list \<Rightarrow> py_error + timedelta" where
  "timedelta_construct typ dct =
     (if typ = datetime_timedelta then timedelta_new dct else Inl NotImplementedError)"


section \<open>finite_valued.all_instances\<close>

text \<open>
  Python values that \<open>all_instances\<close> yields: booleans, the arguments of \<open>Literal\<close>
  types, tuples, and dataclass instances (class name and the keyword arguments the
  constructor stored).
\<close>

datatype pyvalue =
    V_bool bool | V_int int | V_str string | V_none
  | V_tuple "pyvalue list"
  | V_dataclass string "(string \<times> pyvalue) list"





text \<open>Consuming a sequence of generators: the first one that raises ends the run.\<close>

fun sequence_err :: "(py_error + 'a) list \<Rightarrow> py_error + 'a list" where
  "sequence_err [] = Inr []"
| "sequence_err (m # ms) = ebind m (\<lambda>x. ebind (sequence_err ms) (\<lambda>xs. Inr (x # xs)))"

text \<open>
  \<open>flatten(it, levels_to_flatten=1)\<close> on a sequence of generators yields the elements of
  each generator in turn and does not descend into the elements themselves.
\<close>

definition flatten_one_level :: "'a list list \<Rightarrow> 'a list" where
  "flatten_one_level xss = concat xss"






section \<open>kiwilib.flatten and kiwilib.getAllSubclasses\<close>

text \<open>
  The argument of \<open>flatten\<close> is a sequence whose elements are either collections
  (lists, sets, tuples, generators: objects that have \<open>__iter__\<close> and can be iterated) or
  other objects. For an object \<open>a\<close> that is not a collection, \<open>attr_iter a\<close> is the test
  \<open>hasattr(a, "__iter__") and not isinstance(a, (str, bytes))\<close>; when it holds,
  \<open>flatten\<close> recurses into \<open>a\<close> and the \<open>for\<close> loop over the non-iterable \<open>a\<close> raises
  \<open>TypeError\<close>. A class object whose instances define \<open>__iter__\<close> is such an object:
  the attribute is found on the class, iterating the class itself is not possible.
\<close>

datatype 'a nest = Item 'a | Coll "'a nest list"

definition descend :: "int option \<Rightarrow> bool" where
  "descend levels_to_flatten = (case levels_to_flatten of None \<Rightarrow> True | Some n \<Rightarrow> 0 < n)"

definition next_levels :: "int option \<Rightarrow> int option" where
  "next_levels levels_to_flatten = map_option (\<lambda>n. n - 1) levels_to_flatten"

fun flatten :: "('a \<Rightarrow> bool) \<Rightarrow> int option \<Rightarrow> 'a nest list \<Rightarrow> py_error + 'a nest list" where
  "flatten attr_iter levels [] = Inr []"
| "flatten attr_iter levels (Coll ys # it) =
     ebind (if descend levels then flatten attr_iter (next_levels levels) ys else Inr [Coll ys])
       (\<lambda>first. ebind (flatten attr_iter levels it) (\<lambda>rest. Inr (first @ rest)))"
| "flatten attr_iter levels (Item a # it) =
     ebind (if attr_iter a \<and> descend levels then Inl TypeError else Inr [Item a])
       (\<lambda>first. ebind (flatten attr_iter levels it) (\<lambda>rest. Inr (first @ rest)))"

text \<open>The objects in a flattened sequence (a full flattening leaves no collection).\<close>

fun the_items :: "'a nest list \<Rightarrow> 'a list" where
  "the_items [] = []"
| "the_items (Item a # xs) = a # the_items xs"
| "the_items (Coll ys # xs) = the_items xs"

text \<open>
  A class object: an identity, its \<open>__name__\<close>, whether \<open>hasattr(cls, "__iter__")\<close> holds,
  and its \<open>__subclasses__()\<close>. Every class derived from \<open>HierarchicalEnum\<close> inherits the
  method \<open>__iter__\<close> that \<open>HierarchicalEnum\<close> defines, so the attribute test holds for it.
\<close>

datatype pyclass =
  PyClass (class_id: nat) (class_name: string) (has_iter_attr: bool)
    (direct_subclasses: "pyclass list")

text \<open>
  \<open>getAllSubclasses(class_, includeSelf)\<close>. A Python set is a duplicate-free list here;
  its order is not specified by Python and no statement below depends on it.
\<close>

fun getAllSubclasses :: "pyclass \<Rightarrow> bool \<Rightarrow> py_error + pyclass list" where
  "getAllSubclasses (PyClass i n a subclasses) includeSelf =
     ebind (sequence_err (map (\<lambda>sub. getAllSubclasses sub True) subclasses)) (\<lambda>subs.
       ebind (flatten has_iter_attr None (map (\<lambda>s. Coll (map Item s)) subs)) (\<lambda>flat.
         Inr (remdups ((if includeSelf then [PyClass i n a subclasses] else []) @ the_items flat))))"

section \<open>enums.HierarchicalEnum\<close>

text \<open>
  An instance of a hierarchical enumeration carries no data: it is determined by its
  class. \<open>root_class\<close> is the class method every concrete hierarchy has to supply.
\<close>

datatype he_instance = Instance (type_of: pyclass)

definition he_repr :: "(pyclass \<Rightarrow> pyclass) \<Rightarrow> he_instance \<Rightarrow> string" where
  "he_repr root_class self =
     (if type_of self = root_class (type_of self) then class_name (type_of self)
      else class_name (root_class (type_of self)) @ ''.'' @ class_name (type_of self))"

definition he_iter :: "he_instance \<Rightarrow> py_error + he_instance list" where
  "he_iter self = ebind (getAllSubclasses (type_of self) False) (\<lambda>cs. Inr (map Instance cs))"

definition he_len :: "he_instance \<Rightarrow> py_error + nat" where
  "he_len self = ebind (getAllSubclasses (type_of self) False) (\<lambda>cs. Inr (length cs))"

section \<open>l10n_i18n.AliasableHierEnum.aliases_to_members\<close>

text \<open>
  The alias function argument. The default is \<open>lambda x, loc: x.alias(loc)\<close>, a function
  of two positional parameters; \<open>aliases_to_members\<close> calls its alias function with one
  argument, \<open>alias_func(sub())\<close>, which for the default raises \<open>TypeError\<close>. A caller may
  pass a function of one parameter instead.
\<close>

datatype alias_func = Default_alias_func | Unary_alias_func "he_instance \<Rightarrow> string"

definition call_alias_func :: "alias_func \<Rightarrow> he_instance \<Rightarrow> py_error + string" where
  "call_alias_func alias_func x =
     (case alias_func of
        Default_alias_func \<Rightarrow> Inl TypeError
      | Unary_alias_func f \<Rightarrow> Inr (f x))"

text \<open>A dict built by a comprehension: a later entry replaces an earlier one with that key.\<close>

definition dict_of :: "('k \<times> 'v) list \<Rightarrow> ('k \<times> 'v) list" where
  "dict_of kvs = fold (\<lambda>(k, v). AList.update k v) kvs []"

text \<open>
  \<open>aliases_to_members(cls, alias_func)\<close>. In the duplicate branch the comprehension
  \<open>{c: c().alias(locale) for c in getAllSubclasses(cls)}\<close> reads the name \<open>locale\<close>, which
  is bound neither in the function nor in the module: each evaluation raises
  \<open>NameError\<close>. The \<open>raise ValueError\<close> comes after that comprehension.
\<close>

definition aliases_to_members :: "pyclass \<Rightarrow> alias_func \<Rightarrow> py_error + (string \<times> pyclass) list" where
  "aliases_to_members cls alias_func =
     ebind (getAllSubclasses cls False) (\<lambda>subs1.
     ebind (sequence_err
              (map (\<lambda>sub. ebind (call_alias_func alias_func (Instance sub)) (\<lambda>a. Inr (a, sub)))
                 subs1)) (\<lambda>kvs.
     let out = dict_of kvs in
     ebind (getAllSubclasses cls False) (\<lambda>subs2.
       if length out < length subs2 then
         ebind (getAllSubclasses cls False) (\<lambda>subs3.
         ebind (sequence_err (map (\<lambda>c. Inl NameError :: py_error + (pyclass \<times> string)) subs3))
           (\<lambda>subs. Inl ValueError))
       else Inr out)))"

section \<open>enums.enum_counts\<close>









section \<open>kiwilib.LinkedHeapNode and kiwilib.LinkedMinHeap\<close>

text \<open>
  Node objects live in a store from addresses to their four attributes; a reference
  is an address, \<open>None\<close> is the absent reference. Reading an attribute of \<open>None\<close>
  raises \<open>AttributeError\<close>. Nodes are compared by identity, that is by address.
\<close>

record 'v node =
  val :: 'v
  left :: "nat option"
  right :: "nat option"
  parent :: "nat option"

text \<open>
  The heap object: \<open>last\<close>, \<open>size\<close>, \<open>head\<close> and \<open>compF\<close> of the source, and the node
  store. The key function is applied to nodes; it reads the node's value (the class
  supports \<open>LinkedHeapNode\<close> only, whose single data member is \<open>val\<close>), so it is given
  here as a function of the value.
\<close>

record ('v, 'k) heap =
  last_h :: "nat option"
  size_h :: nat
  head_h :: "nat option"
  compF :: "'v \<Rightarrow> 'k"
  nodes :: "nat \<Rightarrow> 'v node"

definition set_left :: "nat \<Rightarrow> nat option \<Rightarrow> ('v, 'k) heap \<Rightarrow> ('v, 'k) heap" where
  "set_left a x h = h\<lparr>nodes := (nodes h)(a := (nodes h a)\<lparr>left := x\<rparr>)\<rparr>"

definition set_right :: "nat \<Rightarrow> nat option \<Rightarrow> ('v, 'k) heap \<Rightarrow> ('v, 'k) heap" where
  "set_right a x h = h\<lparr>nodes := (nodes h)(a := (nodes h a)\<lparr>right := x\<rparr>)\<rparr>"

definition set_parent :: "nat \<Rightarrow> nat option \<Rightarrow> ('v, 'k) heap \<Rightarrow> ('v, 'k) heap" where
  "set_parent a x h = h\<lparr>nodes := (nodes h)(a := (nodes h a)\<lparr>parent := x\<rparr>)\<rparr>"

definition set_val :: "nat \<Rightarrow> 'v \<Rightarrow> ('v, 'k) heap \<Rightarrow> ('v, 'k) heap" where
  "set_val a x h = h\<lparr>nodes := (nodes h)(a := (nodes h a)\<lparr>val := x\<rparr>)\<rparr>"

text \<open>\<open>self.compF(x)\<close> for a reference \<open>x\<close> that may be \<open>None\<close>.\<close>

definition key_of :: "('v, 'k) heap \<Rightarrow> nat option \<Rightarrow> py_error + 'k" where
  "key_of h x = (case x of None \<Rightarrow> Inl AttributeError | Some a \<Rightarrow> Inr (compF h (val (nodes h a))))"

text \<open>\<open>if x: x.parent = p\<close>\<close>

definition set_parent_if :: "nat option \<Rightarrow> nat option \<Rightarrow> ('v, 'k) heap \<Rightarrow> ('v, 'k) heap" where
  "set_parent_if x p h = (case x of None \<Rightarrow> h | Some a \<Rightarrow> set_parent a p h)"

text \<open>
  A method that raises returns \<open>Inl\<close> of the exception and the heap as it is at the
  raise; a method that returns gives \<open>Inr\<close> of its result and the heap after the call.

  \<open>_swapWithParent(item)\<close>, statement by statement; every intermediate heap is named.
\<close>

definition swapWithParent ::
  "nat option \<Rightarrow> ('v, 'k) heap \<Rightarrow> py_error \<times> ('v, 'k) heap + ('v, 'k) heap" where
  "swapWithParent item_opt h =
     (case item_opt of
        None \<Rightarrow> Inr h
      | Some item \<Rightarrow>
         (let tempL = left (nodes h item);
              tempR = right (nodes h item)
          in case parent (nodes h item) of
               None \<Rightarrow> Inl (AttributeError, h)
             | Some tempP \<Rightarrow>
                (let h1 = set_parent item (parent (nodes h tempP)) h;
                     h2 = (if last_h h1 = Some item then h1\<lparr>last_h := Some tempP\<rparr> else h1);
                     h3 = (case parent (nodes h2 tempP) of
                             None \<Rightarrow> h2\<lparr>head_h := Some item\<rparr>
                           | Some g \<Rightarrow>
                               if left (nodes h2 g) = Some tempP then set_left g (Some item) h2
                               else set_right g (Some item) h2);
                     h4 = (if left (nodes h3 tempP) = Some item then
                             (let a1 = set_parent_if (right (nodes h3 tempP)) (Some item) h3;
                                  a2 = set_right item (right (nodes a1 tempP)) a1;
                                  a3 = set_left tempP tempL a2;
                                  a4 = set_right tempP tempR a3
                              in set_left item (Some tempP) a4)
                           else
                             (let b1 = set_parent_if (left (nodes h3 tempP)) (Some item) h3;
                                  b2 = set_left item (left (nodes b1 tempP)) b1;
                                  b3 = set_left tempP tempL b2;
                                  b4 = set_right tempP tempR b3
                              in set_right item (Some tempP) b4));
                     h5 = set_parent tempP (Some item) h4;
                     h6 = set_parent_if tempL (Some tempP) h5
                 in Inr (set_parent_if tempR (Some tempP) h6))))"

text \<open>\<open>_swapVals(a, b)\<close> exchanges the values of two nodes.\<close>

definition swapVals :: "nat \<Rightarrow> nat \<Rightarrow> ('v, 'k) heap \<Rightarrow> ('v, 'k) heap" where
  "swapVals a b h =
     (let temp = val (nodes h a);
          h1 = set_val a (val (nodes h b)) h
      in set_val b temp h1)"

text \<open>
  \<open>_getHeight(treeSize)\<close>: the loop halves \<open>a\<close> while it exceeds 1. (\<open>int(a / 2)\<close> is
  \<open>a div 2\<close> for every size a float represents exactly.)
\<close>

function getHeight_loop :: "nat \<Rightarrow> nat \<Rightarrow> nat" where
  "getHeight_loop h a = (if a > 1 then getHeight_loop (h + 1) (a div 2) else h)"
  by pat_completeness auto
termination
  by (relation "measure snd") auto

definition getHeight :: "nat \<Rightarrow> nat" where
  "getHeight treeSize = getHeight_loop 1 treeSize"

definition height :: "('v, 'k) heap \<Rightarrow> nat" where
  "height h = getHeight (size_h h)"

text \<open>
  Loops over references may not terminate on a cyclic store: they are partial
  functions, \<open>None\<close> standing for a run that never returns.
  \<open>leftmost\<close> is the loop \<open>while child.left: child = child.left\<close>.
\<close>

partial_function (option) leftmost ::
  "(nat \<Rightarrow> 'v node) \<Rightarrow> nat option \<Rightarrow> (py_error + nat option) option" where
  "leftmost ns child =
     (case child of
        None \<Rightarrow> Some (Inl AttributeError)
      | Some c \<Rightarrow>
         (case left (ns c) of
            None \<Rightarrow> Some (Inr child)
          | Some l \<Rightarrow> leftmost ns (Some l)))"

text \<open>
  \<open>_getChild(parent, treeSize)\<close>, the recursion inside \<open>_getNextParent\<close>.
  \<open>round(math.pow(2, k))\<close> is \<open>2 ^ k\<close>; for \<open>treeSize \<ge> 3\<close> the height is at least 2 and
  \<open>treeSize\<close> is at least \<open>2 ^ (h - 1)\<close>, so no subtraction below is truncated.
\<close>

function getChild :: "(nat \<Rightarrow> 'v node) \<Rightarrow> nat option \<Rightarrow> nat \<Rightarrow> (py_error + nat option) option" where
  "getChild ns parent_opt treeSize =
     (if treeSize = 0 then Some (Inr None)
      else if treeSize < 3 then Some (Inr parent_opt)
      else
        (let h = getHeight treeSize;
             nOnAboveLevels = 2 ^ (h - 1) - 1;
             nOnInsertionRow = (treeSize - nOnAboveLevels) mod 2 ^ (h - 1)
         in case parent_opt of
              None \<Rightarrow> Some (Inl AttributeError)
            | Some p \<Rightarrow>
                if nOnInsertionRow = 0 then leftmost ns (left (ns p))
                else if nOnInsertionRow \<ge> 2 ^ (h - 2)
                  then getChild ns (right (ns p)) (treeSize - 2 ^ (h - 1))
                  else getChild ns (left (ns p)) (treeSize - 2 ^ (h - 2))))"
  by pat_completeness auto
termination
  by (relation "measure (\<lambda>(ns, p, treeSize). treeSize)") auto

text \<open>\<open>_getNextParent(size)\<close>; \<open>if not size\<close> holds for \<open>None\<close> and for 0.\<close>

definition getNextParent :: "('v, 'k) heap \<Rightarrow> nat option \<Rightarrow> (py_error + nat option) option" where
  "getNextParent h size_arg =
     (let sz = (case size_arg of None \<Rightarrow> size_h h | Some s \<Rightarrow> if s = 0 then size_h h else s)
      in getChild (nodes h) (head_h h) sz)"

text \<open>
  \<open>_bubbleUp(item)\<close>: while the item has a parent with a larger key, exchange the two.
\<close>

partial_function (option) bubbleUp ::
  "nat \<Rightarrow> ('v, 'k::linorder) heap \<Rightarrow> (py_error \<times> ('v, 'k) heap + ('v, 'k) heap) option" where
  "bubbleUp item h =
     (case parent (nodes h item) of
        None \<Rightarrow> Some (Inr h)
      | Some p \<Rightarrow>
          if compF h (val (nodes h item)) < compF h (val (nodes h p)) then
            (let h1 = (if Some item = last_h h then h\<lparr>last_h := parent (nodes h item)\<rparr> else h)
             in case swapWithParent (Some item) h1 of
                  Inl e \<Rightarrow> Some (Inl e)
                | Inr h2 \<Rightarrow> bubbleUp item h2)
          else Some (Inr h))"

text \<open>
  \<open>push(item)\<close>. Every node object is truthy, so \<open>if not item\<close> holds for \<open>None\<close> only.
\<close>

definition push ::
  "nat option \<Rightarrow> ('v, 'k::linorder) heap \<Rightarrow> (py_error \<times> ('v, 'k) heap + ('v, 'k) heap) option" where
  "push item_opt h =
     (case item_opt of
        None \<Rightarrow> Some (Inr h)
      | Some item \<Rightarrow>
         (case getNextParent h None of
            None \<Rightarrow> None
          | Some (Inl e) \<Rightarrow> Some (Inl (e, h))
          | Some (Inr parent_opt) \<Rightarrow>
             (let h1 = (case parent_opt of
                          None \<Rightarrow> h\<lparr>head_h := Some item\<rparr>
                        | Some p \<Rightarrow>
                            if size_h h mod 2 = 0 then set_right p (Some item) h
                            else set_left p (Some item) h);
                  h2 = h1\<lparr>size_h := size_h h1 + 1\<rparr>;
                  h3 = h2\<lparr>last_h := Some item\<rparr>;
                  h4 = set_left item None h3;
                  h5 = set_right item None h4;
                  h6 = set_parent item parent_opt h5
              in bubbleUp item h6)))"

text \<open>
  The constructor \<open>LinkedMinHeap(items, compFunction)\<close>: an empty heap, then
  \<open>heapify\<close> pushes the items in order.
\<close>

fun push_all ::
  "nat option list \<Rightarrow> ('v, 'k::linorder) heap
     \<Rightarrow> (py_error \<times> ('v, 'k) heap + ('v, 'k) heap) option" where
  "push_all [] h = Some (Inr h)"
| "push_all (item # items) h =
     (case push item h of
        None \<Rightarrow> None
      | Some (Inl e) \<Rightarrow> Some (Inl e)
      | Some (Inr h1) \<Rightarrow> push_all items h1)"

definition heapify ::
  "nat option list \<Rightarrow> ('v, 'k::linorder) heap
     \<Rightarrow> (py_error \<times> ('v, 'k) heap + ('v, 'k) heap) option" where
  "heapify items h = (if length items = 0 then Some (Inr h) else push_all items h)"

definition new_heap ::
  "(nat \<Rightarrow> 'v node) \<Rightarrow> nat option list \<Rightarrow> ('v \<Rightarrow> 'k::linorder)
     \<Rightarrow> (py_error \<times> ('v, 'k) heap + ('v, 'k) heap) option" where
  "new_heap store items compFunction =
     heapify items \<lparr>last_h = None, size_h = 0, head_h = None, compF = compFunction, nodes = store\<rparr>"

text \<open>
  \<open>validate()\<close>: \<open>validate_node\<close> is the call with a node or \<open>None\<close>, \<open>validate\<close> the call
  with the default argument. \<open>and\<close> evaluates its right operand only when the left one
  holds.
\<close>

partial_function (option) validate_node ::
  "('v, 'k::linorder) heap \<Rightarrow> nat option \<Rightarrow> (py_error + bool) option" where
  "validate_node h head_arg =
     (case head_arg of
        None \<Rightarrow> Some (Inr True)
      | Some a \<Rightarrow>
         (case key_of h (parent (nodes h a)) of
            Inl e \<Rightarrow> Some (Inl e)
          | Inr kp \<Rightarrow>
              if compF h (val (nodes h a)) \<ge> kp then
                Option.bind (validate_node h (left (nodes h a)))
                  (\<lambda>r. case r of
                          Inl e \<Rightarrow> Some (Inl e)
                        | Inr b \<Rightarrow> if b then validate_node h (right (nodes h a)) else Some (Inr False))
              else Some (Inr False)))"

definition validate :: "('v, 'k::linorder) heap \<Rightarrow> (py_error + bool) option" where
  "validate h =
     (case head_h h of
        None \<Rightarrow> Some (Inr (size_h h = 0 \<and> last_h h = None))
      | Some hd_node \<Rightarrow>
          if size_h h > 0 \<and> last_h h \<noteq> None then
            Option.bind (validate_node h (left (nodes h hd_node)))
              (\<lambda>r. case r of
                      Inl e \<Rightarrow> Some (Inl e)
                    | Inr b \<Rightarrow> if b then validate_node h (right (nodes h hd_node))
                              else Some (Inr False))
          else Some (Inr False))"

text \<open>
  The first loop of \<open>pop\<close>: the node \<open>out\<close> is exchanged with its smaller child (the
  left one on a tie) while it has a right child.
\<close>

partial_function (option) pop_sift ::
  "bool \<Rightarrow> nat \<Rightarrow> ('v, 'k::linorder) heap
     \<Rightarrow> (py_error \<times> ('v, 'k) heap + ('v, 'k) heap) option" where
  "pop_sift firstIter out h =
     (case right (nodes h out) of
        None \<Rightarrow> Some (Inr h)
      | Some r \<Rightarrow>
         (case key_of h (left (nodes h out)) of
            Inl e \<Rightarrow> Some (Inl (e, h))
          | Inr kl \<Rightarrow>
             (case swapWithParent
                     (if kl > compF h (val (nodes h r)) then right (nodes h out)
                      else left (nodes h out)) h of
                Inl e \<Rightarrow> Some (Inl e)
              | Inr h1 \<Rightarrow>
                  pop_sift False out
                    (if firstIter then h1\<lparr>head_h := parent (nodes h1 out)\<rparr> else h1))))"

text \<open>The last loop of \<open>pop\<close>: \<open>while self.last.right: self.last = self.last.right\<close>.\<close>

partial_function (option) rightmost ::
  "('v, 'k) heap \<Rightarrow> (py_error \<times> ('v, 'k) heap + ('v, 'k) heap) option" where
  "rightmost h =
     (case last_h h of
        None \<Rightarrow> Some (Inl (AttributeError, h))
      | Some l \<Rightarrow>
         (case right (nodes h l) of
            None \<Rightarrow> Some (Inr h)
          | Some r \<Rightarrow> rightmost (h\<lparr>last_h := Some r\<rparr>)))"

text \<open>
  The end of \<open>pop\<close>, from \<open>self.size -= 1\<close> on: the node \<open>out\<close> is detached and \<open>last\<close>
  is recomputed in one of three ways.
\<close>

definition pop_detach ::
  "nat \<Rightarrow> ('v, 'k::linorder) heap
     \<Rightarrow> (py_error \<times> ('v, 'k) heap + nat option \<times> ('v, 'k) heap) option" where
  "pop_detach out h =
     (let h1 = h\<lparr>size_h := size_h h - 1\<rparr>
      in case parent (nodes h1 out) of
           None \<Rightarrow> Some (Inl (AttributeError, h1))
         | Some p \<Rightarrow>
             if right (nodes h1 p) \<noteq> None then
               (let h2 = h1\<lparr>last_h := left (nodes h1 p)\<rparr>;
                    h3 = set_right p None h2
                in Some (Inr (Some out, set_parent out None h3)))
             else if height h1 = getHeight (size_h h1 + 1) then
               (let h2 = set_left p None h1
                in case getNextParent h2 (Some (size_h h2 - 1)) of
                     None \<Rightarrow> None
                   | Some (Inl e) \<Rightarrow> Some (Inl (e, h2))
                   | Some (Inr None) \<Rightarrow> Some (Inl (AttributeError, h2))
                   | Some (Inr (Some q)) \<Rightarrow>
                       (let h3 = h2\<lparr>last_h := right (nodes h2 q)\<rparr>
                        in Some (Inr (Some out, set_parent out None h3))))
             else
               (let h2 = set_left p None h1;
                    h3 = h2\<lparr>last_h := head_h h2\<rparr>
                in case rightmost h3 of
                     None \<Rightarrow> None
                   | Some (Inl e) \<Rightarrow> Some (Inl e)
                   | Some (Inr h4) \<Rightarrow> Some (Inr (Some out, set_parent out None h4))))"

text \<open>
  \<open>pop()\<close> returns the removed node and the heap after the call. An empty heap raises
  \<open>IndexError\<close> before anything is changed.
\<close>

definition pop ::
  "('v, 'k::linorder) heap
     \<Rightarrow> (py_error \<times> ('v, 'k) heap + nat option \<times> ('v, 'k) heap) option" where
  "pop h =
     (if size_h h = 0 then Some (Inl (IndexError, h))
      else if size_h h = 1 then
        (let h1 = h\<lparr>size_h := 0\<rparr>;
             out = head_h h1;
             h2 = h1\<lparr>head_h := None\<rparr>
         in Some (Inr (out, h2\<lparr>last_h := None\<rparr>)))
      else
        (case head_h h of
           None \<Rightarrow> Some (Inl (AttributeError, h))
         | Some out \<Rightarrow>
            (case pop_sift True out h of
               None \<Rightarrow> None
             | Some (Inl e) \<Rightarrow> Some (Inl e)
             | Some (Inr h1) \<Rightarrow>
                (case swapWithParent (left (nodes h1 out)) h1 of
                   Inl e \<Rightarrow> Some (Inl e)
                 | Inr h2 \<Rightarrow>
                    (let oldLast = last_h h2
                     in if oldLast \<noteq> Some out then
                          (case oldLast of
                             None \<Rightarrow> Some (Inl (AttributeError, h2))
                           | Some ol \<Rightarrow>
                              (case bubbleUp out (swapVals out ol h2) of
                                 None \<Rightarrow> None
                               | Some (Inl e) \<Rightarrow> Some (Inl e)
                               | Some (Inr h3) \<Rightarrow> pop_detach ol h3))
                        else pop_detach out h2)))))"

text \<open>
  The loop of \<open>_bubbleDown(node)\<close>: the comparisons are strict, and when neither test
  holds the loop is left by \<open>break\<close>.
\<close>

partial_function (option) bubbleDown_loop ::
  "bool \<Rightarrow> nat \<Rightarrow> ('v, 'k::linorder) heap
     \<Rightarrow> (py_error \<times> ('v, 'k) heap + ('v, 'k) heap) option" where
  "bubbleDown_loop firstIter node h =
     (case right (nodes h node) of
        None \<Rightarrow> Some (Inr h)
      | Some r \<Rightarrow>
         (case key_of h (left (nodes h node)) of
            Inl e \<Rightarrow> Some (Inl (e, h))
          | Inr kl \<Rightarrow>
             (let kr = compF h (val (nodes h r));
                  kn = compF h (val (nodes h node))
              in if kl > kr \<and> kn > kr then
                   (case swapWithParent (right (nodes h node)) h of
                      Inl e \<Rightarrow> Some (Inl e)
                    | Inr h1 \<Rightarrow>
                        bubbleDown_loop False node
                          (if firstIter then h1\<lparr>head_h := parent (nodes h1 node)\<rparr> else h1))
                 else if kl < kr \<and> kn > kl then
                   (case swapWithParent (left (nodes h node)) h of
                      Inl e \<Rightarrow> Some (Inl e)
                    | Inr h1 \<Rightarrow>
                        bubbleDown_loop False node
                          (if firstIter then h1\<lparr>head_h := parent (nodes h1 node)\<rparr> else h1))
                 else Some (Inr h))))"

definition bubbleDown ::
  "nat \<Rightarrow> ('v, 'k::linorder) heap \<Rightarrow> (py_error \<times> ('v, 'k) heap + ('v, 'k) heap) option" where
  "bubbleDown node h =
     (case bubbleDown_loop True node h of
        None \<Rightarrow> None
      | Some (Inl e) \<Rightarrow> Some (Inl e)
      | Some (Inr h1) \<Rightarrow>
         (case left (nodes h1 node) of
            None \<Rightarrow> Some (Inr h1)
          | Some l \<Rightarrow>
              if compF h1 (val (nodes h1 l)) < compF h1 (val (nodes h1 node))
              then Some (swapWithParent (Some l) h1)
              else Some (Inr h1)))"

text \<open>
  \<open>popPush(item)\<close>. The method has no \<open>return\<close> statement: the value of the call is
  \<open>None\<close>.
\<close>

definition popPush ::
  "nat option \<Rightarrow> ('v, 'k::linorder) heap
     \<Rightarrow> (py_error \<times> ('v, 'k) heap + nat option \<times> ('v, 'k) heap) option" where
  "popPush item_opt h =
     (let out_opt = head_h h;
          h1 = h\<lparr>head_h := item_opt\<rparr>
      in case out_opt of
           None \<Rightarrow> Some (Inl (AttributeError, h1))
         | Some out \<Rightarrow>
            (case item_opt of
               None \<Rightarrow> Some (Inl (AttributeError, h1))
             | Some item \<Rightarrow>
                (let h2 = set_left item (left (nodes h1 out)) h1;
                     h3 = set_right item (right (nodes h2 out)) h2;
                     h4 = set_parent_if (left (nodes h3 item)) (Some item) h3;
                     h5 = set_parent_if (right (nodes h4 item)) (Some item) h4;
                     h6 = set_left out None h5;
                     h7 = set_right out None h6
                 in case bubbleDown item h7 of
                      None \<Rightarrow> None
                    | Some (Inl e) \<Rightarrow> Some (Inl e)
                    | Some (Inr h8) \<Rightarrow>
                        Some (Inr (None,
                          if parent (nodes h8 item) = last_h h8 then h8\<lparr>last_h := Some item\<rparr>
                          else h8)))))"

text \<open>The recursion equations of the loops evaluate the loops on concrete heaps.\<close>

declare leftmost.simps [code] bubbleUp.simps [code] validate_node.simps [code]
  pop_sift.simps [code] rightmost.simps [code] bubbleDown_loop.simps [code]

text \<open>
  A store of fresh nodes: the node at address \<open>a\<close> is \<open>LinkedHeapNode(vs[a])\<close>, with
  no parent and no children (\<open>d\<close> is the value of the nodes beyond the list).
\<close>

definition fresh_nodes :: "'v list \<Rightarrow> 'v \<Rightarrow> nat \<Rightarrow> 'v node" where
  "fresh_nodes vs d a =
     \<lparr>val = (if a < length vs then vs ! a else d), left = None, right = None, parent = None\<rparr>"

section \<open>Properties of addLineBreaks\<close>

text \<open>
  Claim C4 (as amended). On a text in which the delimiter occurs: a call with neither
  \<open>maxLen\<close> nor \<open>delimIndices\<close> fails with \<open>ValueError\<close> (InvalidInput), and a call with
  both of them fails with \<open>NotImplementedError\<close> (NotImplemented), because the
  \<open>maxLen\<close> guard comes before the exclusive-or test.
\<close>

theorem addLineBreaks_param_validation:
  "str_contains delim s \<Longrightarrow>
     addLineBreaks s delim None None ins = Inl ValueError \<and>
     addLineBreaks s delim (Some m) (Some idx) ins = Inl NotImplementedError"
  by (simp add: addLineBreaks_def)

theorem addLineBreaks_param_validation_witness:
  "str_contains '' '' ''a b'' \<and>
   addLineBreaks ''a b'' '' '' None None 0 = Inl ValueError \<and>
   addLineBreaks ''a b'' '' '' (Some 3) (Some [0]) 0 = Inl NotImplementedError"
  using addLineBreaks_param_validation
    [where delim = "'' ''" and s = "''a b''" and ins = 0 and m = 3 and idx = "[0]"]
  by simp

text \<open>
  Claim C4 as stated fails: with both parameters supplied and the delimiter present the
  call raises \<open>NotImplementedError\<close>, not \<open>ValueError\<close>.
\<close>

theorem addLineBreaks_both_counterexample:
  "addLineBreaks ''a b'' '' '' (Some 3) (Some [0]) 0 \<noteq> Inl ValueError"
  by (simp add: addLineBreaks_def)

text \<open>
  Claim C10. When the delimiter does not occur in the text, \<open>addLineBreaks\<close> returns the
  text unchanged whatever the other parameters are: both of \<open>maxLen\<close> and
  \<open>delimIndices\<close>, neither, or one of them.
\<close>

theorem addLineBreaks_delim_absent:
  "\<not> str_contains delim s \<Longrightarrow> addLineBreaks s delim maxLen delimIndices ins = Inr s"
  by (simp add: addLineBreaks_def)

theorem addLineBreaks_delim_absent_witness:
  "\<not> str_contains '','' ''a b'' \<and>
   addLineBreaks ''a b'' '','' (Some 3) (Some [0]) 0 = Inr ''a b'' \<and>
   addLineBreaks ''a b'' '','' None None 0 = Inr ''a b''"
  using addLineBreaks_delim_absent [of "'',''" "''a b''" "Some 3" "Some [0]" 0]
    addLineBreaks_delim_absent [of "'',''" "''a b''" None None 0]
  by simp

section \<open>Properties of the date/time codec\<close>

lemma timedelta_collect:
  "collect_fields timedelta_getattribute td [''days'', ''seconds'', ''microseconds''] =
     Inr ((if days td = 0 then [] else [(''days'', PyInt (days td))]) @
          (if seconds td = 0 then [] else [(''seconds'', PyInt (seconds td))]) @
          (if microseconds td = 0 then [] else [(''microseconds'', PyInt (microseconds td))]))"
  by (simp add: ebind_def timedelta_getattribute_def)

lemma to_yaml_dict_timedelta:
  "to_yaml_dict timedelta_type_of timedelta_getattribute td =
     Inr (''datetime.timedelta'',
          (if days td = 0 then [] else [(''days'', PyInt (days td))]) @
          (if seconds td = 0 then [] else [(''seconds'', PyInt (seconds td))]) @
          (if microseconds td = 0 then [] else [(''microseconds'', PyInt (microseconds td))]))"
  unfolding to_yaml_dict_def timedelta_type_of_def
  by (simp add: types_to_yaml_tags_def timedelta_getattribute_def ebind_def)

lemma tag_timedelta:
  "map_of yaml_tags_to_types ''datetime.timedelta'' = Some datetime_timedelta"
  by (simp add: yaml_tags_to_types_def types_to_yaml_tags_def)

lemma timedelta_normalise_valid:
  assumes "valid_timedelta td"
  shows "timedelta_normalise (days td * 86400000000 + (seconds td * 1000000 + microseconds td))
           = Inr td"
proof -
  from assms have rng: "0 \<le> seconds td" "seconds td < 86400"
    "0 \<le> microseconds td" "microseconds td < 1000000"
    "- 999999999 \<le> days td" "days td \<le> 999999999"
    by (simp_all add: valid_timedelta_def)
  define r where "r = seconds td * 1000000 + microseconds td"
  have r: "0 \<le> r" "r < 86400000000" using rng by (simp_all add: r_def)
  have d: "(days td * 86400000000 + r) div 86400000000 = days td" using r by simp
  have m: "(days td * 86400000000 + r) mod 86400000000 = r" using r by simp
  have rs: "r div 1000000 = seconds td" using rng by (simp add: r_def)
  have ru: "r mod 1000000 = microseconds td" using rng by (simp add: r_def)
  have "timedelta_normalise (days td * 86400000000 + r) = Inr td"
    unfolding timedelta_normalise_def Let_def d m rs ru using rng by simp
  then show ?thesis by (simp only: r_def)
qed

lemma timedelta_new_normalised:
  assumes "valid_timedelta td"
    and "map_of kw ''days'' = (if days td = 0 then None else Some (PyInt (days td)))"
    and "map_of kw ''seconds'' = (if seconds td = 0 then None else Some (PyInt (seconds td)))"
    and "map_of kw ''microseconds'' =
           (if microseconds td = 0 then None else Some (PyInt (microseconds td)))"
    and "map_of kw ''milliseconds'' = None" and "map_of kw ''minutes'' = None"
    and "map_of kw ''hours'' = None" and "map_of kw ''weeks'' = None"
    and "list_all (\<lambda>(k, v). k \<in> set timedelta_keywords) kw"
  shows "timedelta_new kw = Inr td"
proof -
  have kd: "kwarg_int kw ''days'' = Inr (days td)"
    and ks: "kwarg_int kw ''seconds'' = Inr (seconds td)"
    and ku: "kwarg_int kw ''microseconds'' = Inr (microseconds td)"
    and k0: "kwarg_int kw ''milliseconds'' = Inr 0" "kwarg_int kw ''minutes'' = Inr 0"
      "kwarg_int kw ''hours'' = Inr 0" "kwarg_int kw ''weeks'' = Inr 0"
    using assms by (simp_all add: kwarg_int_def)
  have e: "((((0 * 7 + days td) * 24 + 0) * 60 + 0) * 60 + seconds td) * 1000000
             + 0 * 1000 + microseconds td
           = days td * 86400000000 + (seconds td * 1000000 + microseconds td)"
    by simp
  have "timedelta_new kw =
          timedelta_normalise
            (((((0 * 7 + days td) * 24 + 0) * 60 + 0) * 60 + seconds td) * 1000000
               + 0 * 1000 + microseconds td)"
    unfolding timedelta_new_def kd ks ku k0 ebind_def using assms(9) by (simp only: sum.case not_True_eq_False if_False)
  then show ?thesis
    by (simp only: e timedelta_normalise_valid [OF assms(1)])
qed

text \<open>
  Claim C7. For every duration object \<open>td\<close> (days, seconds and microseconds in their
  normalised ranges, any of them possibly zero), \<open>to_yaml_dict\<close> yields the tag
  \<open>datetime.timedelta\<close> and a mapping \<open>dct\<close> that holds exactly the non-zero components,
  and \<open>from_yaml_dict\<close> on that tag and mapping rebuilds \<open>td\<close>.
\<close>

theorem timedelta_codec_roundtrip:
  assumes "valid_timedelta td"
  shows "\<exists>dct. to_yaml_dict timedelta_type_of timedelta_getattribute td
                 = Inr (''datetime.timedelta'', dct) \<and>
               from_yaml_dict timedelta_construct ''datetime.timedelta'' dct = Inr td \<and>
               map_of dct ''days'' = (if days td = 0 then None else Some (PyInt (days td))) \<and>
               map_of dct ''seconds'' =
                 (if seconds td = 0 then None else Some (PyInt (seconds td))) \<and>
               map_of dct ''microseconds'' =
                 (if microseconds td = 0 then None else Some (PyInt (microseconds td)))"
proof -
  let ?dct = "(if days td = 0 then [] else [(''days'', PyInt (days td))]) @
              (if seconds td = 0 then [] else [(''seconds'', PyInt (seconds td))]) @
              (if microseconds td = 0 then [] else [(''microseconds'', PyInt (microseconds td))])"
  have "timedelta_new ?dct = Inr td"
    by (rule timedelta_new_normalised [OF assms]) (simp_all add: timedelta_keywords_def)
  then have "from_yaml_dict timedelta_construct ''datetime.timedelta'' ?dct = Inr td"
    by (simp add: from_yaml_dict_def tag_timedelta timedelta_construct_def)
  moreover have "map_of ?dct ''days'' = (if days td = 0 then None else Some (PyInt (days td)))"
    "map_of ?dct ''seconds'' = (if seconds td = 0 then None else Some (PyInt (seconds td)))"
    "map_of ?dct ''microseconds'' =
       (if microseconds td = 0 then None else Some (PyInt (microseconds td)))"
    by simp_all
  ultimately show ?thesis
    using to_yaml_dict_timedelta [of td] by blast
qed

theorem timedelta_codec_roundtrip_witness:
  "valid_timedelta \<lparr>days = 3, seconds = 10, microseconds = 0\<rparr> \<and>
   (\<exists>dct. to_yaml_dict timedelta_type_of timedelta_getattribute
            \<lparr>days = 3, seconds = 10, microseconds = 0\<rparr> = Inr (''datetime.timedelta'', dct) \<and>
          from_yaml_dict timedelta_construct ''datetime.timedelta'' dct
            = Inr \<lparr>days = 3, seconds = 10, microseconds = 0\<rparr> \<and>
          map_of dct ''microseconds'' = None)"
proof -
  have v: "valid_timedelta \<lparr>days = 3, seconds = 10, microseconds = 0\<rparr>"
    by (simp add: valid_timedelta_def)
  from timedelta_codec_roundtrip [OF v] show ?thesis
    using v by auto
qed

section \<open>Properties of all_instances\<close>











section \<open>Properties of flatten, getAllSubclasses and the hierarchical enumerations\<close>

lemma flatten_level_0: "flatten attr_iter (Some 0) (map Item xs) = Inr (map Item xs)"
  by (induction xs) (simp_all add: descend_def ebind_def)

text \<open>
  On a sequence of generators \<open>flatten\<close> with \<open>levels_to_flatten = 1\<close> is the
  concatenation used in \<open>all_instances\<close>.
\<close>

lemma flatten_level_1:
  "flatten attr_iter (Some 1) (map (\<lambda>xs. Coll (map Item xs)) xss)
     = Inr (map Item (flatten_one_level xss))"
  by (induction xss)
    (simp_all add: descend_def next_levels_def ebind_def flatten_level_0 flatten_one_level_def)

text \<open>
  A class that has a subclass on which the attribute test holds cannot be flattened:
  \<open>getAllSubclasses\<close> raises \<open>TypeError\<close> when its first direct subclass is a leaf
  class derived from \<open>HierarchicalEnum\<close>.
\<close>

lemma getAllSubclasses_leaf:
  "getAllSubclasses (PyClass i n a []) True = Inr [PyClass i n a []]"
  by (simp add: ebind_def)

lemma sequence_err_error:
  "sequence_err ms = Inl e \<Longrightarrow> \<exists>m \<in> set ms. m = Inl e"
  by (induction ms) (auto simp: ebind_def split: sum.splits)

lemma flatten_error: "flatten attr_iter levels it = Inl e \<Longrightarrow> e = TypeError"
  by (induction attr_iter levels it rule: flatten.induct)
    (auto simp: ebind_def split: sum.splits if_splits)

lemma getAllSubclasses_error: "getAllSubclasses c b = Inl e \<Longrightarrow> e = TypeError"
proof (induction c b arbitrary: e rule: getAllSubclasses.induct)
  case (1 i n a subclasses includeSelf)
  show ?case
  proof (cases "sequence_err (map (\<lambda>sub. getAllSubclasses sub True) subclasses)")
    case (Inl e')
    then obtain sub where "sub \<in> set subclasses" "getAllSubclasses sub True = Inl e'"
      by (auto dest!: sequence_err_error)
    then have "e' = TypeError" using 1 by blast
    then show ?thesis using 1(2) Inl by (simp add: ebind_def)
  next
    case (Inr subs)
    then show ?thesis using 1(2)
      by (auto simp: ebind_def split: sum.splits dest: flatten_error)
  qed
qed

lemma getAllSubclasses_first_leaf_iter:
  "getAllSubclasses (PyClass i n a (PyClass j m True [] # rest)) b = Inl TypeError"
proof (cases "sequence_err (map (\<lambda>sub. getAllSubclasses sub True) rest)")
  case (Inl e)
  then obtain sub where "getAllSubclasses sub True = Inl e"
    by (auto dest!: sequence_err_error)
  then have "e = TypeError" by (rule getAllSubclasses_error)
  then show ?thesis using Inl by (simp add: ebind_def)
next
  case (Inr subs)
  then show ?thesis by (simp add: ebind_def descend_def next_levels_def)
qed

text \<open>
  Claim C6, evaluated on the hierarchy with root \<open>R\<close> and leaves \<open>L1\<close>, \<open>L2\<close>, \<open>L3\<close>, all
  derived from \<open>HierarchicalEnum\<close>: the renderings are \<open>R.L1\<close> and \<open>R\<close> as claimed, but
  iterating an instance of \<open>R\<close> (and taking its length) raises \<open>TypeError\<close> instead of
  yielding the three leaf instances.
\<close>

theorem hierarchical_enum_iter_raises:
  "he_repr (\<lambda>c. PyClass 0 ''R'' True
               [PyClass 1 ''L1'' True [], PyClass 2 ''L2'' True [], PyClass 3 ''L3'' True []])
     (Instance (PyClass 1 ''L1'' True [])) = ''R.L1'' \<and>
   he_repr (\<lambda>c. PyClass 0 ''R'' True
               [PyClass 1 ''L1'' True [], PyClass 2 ''L2'' True [], PyClass 3 ''L3'' True []])
     (Instance (PyClass 0 ''R'' True
               [PyClass 1 ''L1'' True [], PyClass 2 ''L2'' True [], PyClass 3 ''L3'' True []]))
     = ''R'' \<and>
   he_iter (Instance (PyClass 0 ''R'' True
               [PyClass 1 ''L1'' True [], PyClass 2 ''L2'' True [], PyClass 3 ''L3'' True []]))
     = Inl TypeError \<and>
   he_len (Instance (PyClass 0 ''R'' True
               [PyClass 1 ''L1'' True [], PyClass 2 ''L2'' True [], PyClass 3 ''L3'' True []]))
     = Inl TypeError"
  by (simp add: he_repr_def he_iter_def he_len_def getAllSubclasses_first_leaf_iter ebind_def
      del: getAllSubclasses.simps)

text \<open>
  For comparison, on classes without an \<open>__iter__\<close> attribute the same hierarchy is
  flattened to its three leaves.
\<close>

lemma getAllSubclasses_three_leaves_no_iter:
  "getAllSubclasses (PyClass 0 ''R'' False
      [PyClass 1 ''L1'' False [], PyClass 2 ''L2'' False [], PyClass 3 ''L3'' False []]) False
   = Inr [PyClass 1 ''L1'' False [], PyClass 2 ''L2'' False [], PyClass 3 ''L3'' False []]"
  by (simp add: ebind_def descend_def next_levels_def)

text \<open>
  \<open>aliases_to_members\<close> never raises \<open>ValueError\<close> (DuplicateAlias), whatever the class
  and the alias function: the duplicate branch is entered only with a non-empty subclass
  set, and then the diagnostic comprehension raises \<open>NameError\<close> first.
\<close>

lemma sequence_err_NameError:
  "xs \<noteq> [] \<Longrightarrow> sequence_err (map (\<lambda>c. Inl NameError) xs) = Inl NameError"
  by (cases xs) (simp_all add: ebind_def)

lemma aliases_to_members_no_ValueError: "aliases_to_members cls alias_func \<noteq> Inl ValueError"
proof -
  have "ebind (sequence_err (map (\<lambda>c. Inl NameError :: py_error + (pyclass \<times> string)) subs3))
          (\<lambda>subs. Inl ValueError :: py_error + (string \<times> pyclass) list) \<noteq> Inl ValueError"
    if "getAllSubclasses cls False = Inr subs3" "getAllSubclasses cls False = Inr subs2"
      "length (out :: (string \<times> pyclass) list) < length subs2" for subs2 subs3 out
  proof -
    from that have "subs3 \<noteq> []" by auto
    then show ?thesis by (simp add: sequence_err_NameError ebind_def)
  qed
  moreover have "sequence_err
           (map (\<lambda>sub. ebind (call_alias_func alias_func (Instance sub)) (\<lambda>a. Inr (a, sub))) subs)
         \<noteq> Inl ValueError" for subs
    by (auto dest!: sequence_err_error simp: ebind_def call_alias_func_def
        split: sum.splits alias_func.splits)
  moreover have "getAllSubclasses cls False \<noteq> Inl ValueError"
    using getAllSubclasses_error by fastforce
  ultimately show ?thesis
    unfolding aliases_to_members_def Let_def
    by (auto simp: ebind_def split: sum.splits)
qed

text \<open>
  Claim C5, evaluated on a root \<open>R\<close> derived from \<open>AliasableHierEnum\<close> with two leaf
  subclasses \<open>A\<close> and \<open>B\<close>. With the default alias function, and with a one-parameter
  alias function that gives both members the alias \<open>x\<close>, the call raises \<open>TypeError\<close>
  (from \<open>getAllSubclasses\<close>), not \<open>ValueError\<close>.
\<close>

theorem aliases_to_members_duplicate_raises_TypeError:
  "aliases_to_members (PyClass 0 ''R'' True [PyClass 1 ''A'' True [], PyClass 2 ''B'' True []])
     Default_alias_func = Inl TypeError \<and>
   aliases_to_members (PyClass 0 ''R'' True [PyClass 1 ''A'' True [], PyClass 2 ''B'' True []])
     (Unary_alias_func (\<lambda>x. ''x'')) = Inl TypeError"
  by (simp add: aliases_to_members_def getAllSubclasses_first_leaf_iter ebind_def
      del: getAllSubclasses.simps)

text \<open>
  Were the subclasses flattened (classes without the \<open>__iter__\<close> attribute), the default
  alias function would still raise \<open>TypeError\<close> at its first call, and a one-parameter
  alias function with colliding aliases would end in \<open>NameError\<close>.
\<close>

lemma aliases_to_members_without_iter_attr:
  "aliases_to_members (PyClass 0 ''R'' False [PyClass 1 ''A'' False [], PyClass 2 ''B'' False []])
     Default_alias_func = Inl TypeError \<and>
   aliases_to_members (PyClass 0 ''R'' False [PyClass 1 ''A'' False [], PyClass 2 ''B'' False []])
     (Unary_alias_func (\<lambda>x. ''x'')) = Inl NameError"
  by (simp add: aliases_to_members_def call_alias_func_def dict_of_def ebind_def descend_def
      next_levels_def)

section \<open>Properties of enum_counts\<close>











section \<open>Properties of the linked min-heap: small heaps and popPush\<close>

text \<open>
  Claim C8. \<open>pop()\<close> on a heap of size 1 returns the head, the sole node, and leaves
  size 0 with \<open>head\<close> and \<open>last\<close> absent and nothing else changed; \<open>pop()\<close> on a heap of
  size 0 raises \<open>IndexError\<close> (EmptyCollection) with the heap as it was.
\<close>

theorem pop_small_heaps:
  "(size_h h = 1 \<longrightarrow>
      pop h = Some (Inr (head_h h, h\<lparr>size_h := 0, head_h := None, last_h := None\<rparr>))) \<and>
   (size_h h = 0 \<longrightarrow> pop h = Some (Inl (IndexError, h)))"
  by (simp add: pop_def Let_def)

theorem pop_small_heaps_witness:
  "size_h \<lparr>last_h = Some 0, size_h = 1, head_h = Some 0, compF = (\<lambda>v :: int. v),
           nodes = fresh_nodes [1] 0\<rparr> = 1 \<and>
   pop \<lparr>last_h = Some 0, size_h = 1, head_h = Some 0, compF = (\<lambda>v :: int. v),
        nodes = fresh_nodes [1] 0\<rparr>
     = Some (Inr (Some 0, \<lparr>last_h = None, size_h = 0, head_h = None, compF = (\<lambda>v :: int. v),
                           nodes = fresh_nodes [1] 0\<rparr>)) \<and>
   size_h \<lparr>last_h = None, size_h = 0, head_h = None, compF = (\<lambda>v :: int. v),
           nodes = fresh_nodes [1] 0\<rparr> = 0 \<and>
   pop \<lparr>last_h = None, size_h = 0, head_h = None, compF = (\<lambda>v :: int. v),
        nodes = fresh_nodes [1] 0\<rparr>
     = Some (Inl (IndexError, \<lparr>last_h = None, size_h = 0, head_h = None, compF = (\<lambda>v :: int. v),
                               nodes = fresh_nodes [1] 0\<rparr>))"
  using pop_small_heaps [of "\<lparr>last_h = Some 0, size_h = 1, head_h = Some 0,
                              compF = (\<lambda>v :: int. v), nodes = fresh_nodes [1] 0\<rparr>"]
    pop_small_heaps [of "\<lparr>last_h = None, size_h = 0, head_h = None,
                          compF = (\<lambda>v :: int. v), nodes = fresh_nodes [1] 0\<rparr>"]
  by simp

text \<open>
  Claim C3, evaluated. On the heap built from one node (address 0, value 1) and a fresh
  node (address 1, value 2), \<open>popPush\<close> returns \<open>None\<close> and leaves \<open>last\<close> at the removed
  node 0, whereas \<open>pop()\<close> followed by \<open>push\<close> returns node 0 and leaves \<open>last\<close> at the
  new node 1. On the heap built from the values 1, 2, 2, 3, 3, 3, 3, on which
  \<open>validate()\<close> holds, \<open>popPush\<close> of a node of value 5 leaves a heap on which
  \<open>validate()\<close> is false: with two equal children neither strict comparison of
  \<open>_bubbleDown\<close> holds and the loop stops one level down.
\<close>

theorem popPush_not_pop_then_push:
  "(case new_heap (fresh_nodes [1, 2 :: int] 0) [Some 0] (\<lambda>v. v) of
      Some (Inr h) \<Rightarrow>
        size_h h = 1 \<and> head_h h = Some 0 \<and> last_h h = Some 0 \<and>
        (case popPush (Some 1) h of
           Some (Inr (r, h1)) \<Rightarrow>
             r = None \<and> head_h h1 = Some 1 \<and> last_h h1 = Some 0 \<and> size_h h1 = 1
         | _ \<Rightarrow> False) \<and>
        (case pop h of
           Some (Inr (r, h2)) \<Rightarrow>
             r = Some 0 \<and>
             (case push (Some 1) h2 of
                Some (Inr h3) \<Rightarrow> head_h h3 = Some 1 \<and> last_h h3 = Some 1 \<and> size_h h3 = 1
              | _ \<Rightarrow> False)
         | _ \<Rightarrow> False)
    | _ \<Rightarrow> False) \<and>
   (case new_heap (fresh_nodes [1, 2, 2, 3, 3, 3, 3, 5 :: int] 0)
           [Some 0, Some 1, Some 2, Some 3, Some 4, Some 5, Some 6] (\<lambda>v. v) of
      Some (Inr h) \<Rightarrow>
        validate h = Some (Inr True) \<and>
        (case popPush (Some 7) h of
           Some (Inr (r, h1)) \<Rightarrow> validate h1 = Some (Inr False)
         | _ \<Rightarrow> False)
    | _ \<Rightarrow> False)"
  by code_simp

end
